theory Spec2Isabelle
  imports Main
begin

section \<open>Python values the code works with\<close>

text \<open>
  The module \<^verbatim>\<open>altair/sphinxext/utils.py\<close> is embedded function by function.
  Byte strings and text are both \<^typ>\<open>string\<close>: a text is represented by its UTF-8
  encoding, so decoding a byte string checks that it is well-formed UTF-8 and returns the
  same characters. The line feed is an ASCII byte and never part of a longer UTF-8
  sequence, so splitting at line feeds and counting lines agree in both readings.
  Where the code itself depends on the difference, the model says so: the content that
  the loader returns is a text, and \<^verbatim>\<open>BytesIO\<close> refuses a text.
\<close>

abbreviation LF :: char where "LF \<equiv> CHR 0x0A"
abbreviation CR :: char where "CR \<equiv> CHR 0x0D"
abbreviation DQ :: char where "DQ \<equiv> CHR 0x22"

text \<open>The exceptions that the code raises or lets through.\<close>

datatype py_error =
    SyntaxError string
  | IndexError
  | TypeError string
  | ValueError string
  | UnicodeDecodeError
  | UnboundLocalError string
  | AttributeError string
  | OSError string
  | Exception string

subsection \<open>Sequence operations\<close>

text \<open>\<^verbatim>\<open>xs[-1]\<close>: the last element, IndexError on an empty list.\<close>

fun index_last :: "'a list \<Rightarrow> py_error + 'a" where
  "index_last [] = Inl IndexError"
| "index_last (x # xs) = Inr (last (x # xs))"

text \<open>\<^verbatim>\<open>content.replace(b'\r\n', b'\n')\<close>: leftmost, non-overlapping occurrences.\<close>

fun replace_crlf :: "string \<Rightarrow> string" where
  "replace_crlf (c # d # cs) =
     (if c = CR \<and> d = LF then LF # replace_crlf cs else c # replace_crlf (d # cs))"
| "replace_crlf cs = cs"

text \<open>\<^verbatim>\<open>content.split('\n')\<close>: always at least one piece.\<close>

fun split_nl :: "string \<Rightarrow> string list" where
  "split_nl [] = [[]]"
| "split_nl (c # cs) =
     (if c = LF then [] # split_nl cs
      else (c # hd (split_nl cs)) # tl (split_nl cs))"

text \<open>\<^verbatim>\<open>content.split('\n', k)\<close> for \<open>k \<ge> 0\<close>: at most \<open>k\<close> splits, from the left.\<close>

fun split_max :: "nat \<Rightarrow> string \<Rightarrow> string list" where
  "split_max 0 s = [s]"
| "split_max (Suc k) [] = [[]]"
| "split_max (Suc k) (c # cs) =
     (if c = LF then [] # split_max k cs
      else (c # hd (split_max (Suc k) cs)) # tl (split_max (Suc k) cs))"

text \<open>\<^verbatim>\<open>'\n'.join(pieces)\<close>.\<close>

fun join_nl :: "string list \<Rightarrow> string" where
  "join_nl [] = []"
| "join_nl [x] = x"
| "join_nl (x # y # ys) = x @ LF # join_nl (y # ys)"

subsection \<open>Decoding\<close>

text \<open>
  \<^verbatim>\<open>content.decode('utf-8')\<close> in strict mode: it raises UnicodeDecodeError unless
  the bytes are well-formed UTF-8 (no stray continuation byte, no overlong form, no
  surrogate, nothing above U+10FFFF).
\<close>

definition cont_byte :: "char \<Rightarrow> bool" where
  "cont_byte c = (0x80 \<le> (of_char c :: nat) \<and> (of_char c :: nat) \<le> 0xBF)"

definition in_range :: "nat \<Rightarrow> nat \<Rightarrow> char \<Rightarrow> bool" where
  "in_range lo hi c = (lo \<le> (of_char c :: nat) \<and> (of_char c :: nat) \<le> hi)"

fun valid_utf8 :: "string \<Rightarrow> bool" where
  "valid_utf8 [] = True"
| "valid_utf8 (b # bs) =
     (if in_range 0x00 0x7F b then valid_utf8 bs
      else if in_range 0xC2 0xDF b then
        (case bs of b1 # r \<Rightarrow> cont_byte b1 \<and> valid_utf8 r | _ \<Rightarrow> False)
      else if in_range 0xE0 0xEF b then
        (case bs of b1 # b2 # r \<Rightarrow>
           (if b = CHR 0xE0 then in_range 0xA0 0xBF b1
            else if b = CHR 0xED then in_range 0x80 0x9F b1
            else cont_byte b1) \<and> cont_byte b2 \<and> valid_utf8 r
         | _ \<Rightarrow> False)
      else if in_range 0xF0 0xF4 b then
        (case bs of b1 # b2 # b3 # r \<Rightarrow>
           (if b = CHR 0xF0 then in_range 0x90 0xBF b1
            else if b = CHR 0xF4 then in_range 0x80 0x8F b1
            else cont_byte b1) \<and> cont_byte b2 \<and> cont_byte b3 \<and> valid_utf8 r
         | _ \<Rightarrow> False)
      else False)"

definition decode_utf8 :: "string \<Rightarrow> py_error + string" where
  "decode_utf8 content = (if valid_utf8 content then Inr content else Inl UnicodeDecodeError)"

section \<open>Syntax trees and tokens\<close>

text \<open>
  The code looks at a syntax tree only this far: whether the tree is a
  \<^verbatim>\<open>Module\<close>, whether a top-level statement is an \<^verbatim>\<open>ast.Expr\<close>,
  whether the value of that expression is an \<^verbatim>\<open>ast.Str\<close>, the text of the
  literal and the line number of the statement. Every other expression or statement
  is kept as its source text.
\<close>

datatype expr = Str string | Expression string

datatype stmt = Expr nat expr | Statement nat string

datatype ast_node = Module "stmt list" | Node string

fun is_Expr :: "stmt \<Rightarrow> bool" where
  "is_Expr (Expr l e) = True"
| "is_Expr (Statement l s) = False"

text \<open>A token of \<^verbatim>\<open>tokenize\<close>: its exact type and its end position (row, column).\<close>

record token =
  exact_type :: nat
  tok_end :: "nat \<times> nat"

section \<open>The interpreter around the code\<close>

text \<open>
  What the standard library does is a parameter of the model: the file system
  (\<^verbatim>\<open>open(filename, 'rb').read()\<close>), the parser \<^verbatim>\<open>ast.parse\<close>, the
  tokenizer \<^verbatim>\<open>tokenize.tokenize\<close>, and whether a module node has the attribute
  \<^verbatim>\<open>docstring\<close> (only pre-releases of Python 3.7 had it; everywhere else the
  attribute access raises AttributeError).
\<close>

record python =
  read_file :: "string \<Rightarrow> py_error + string"
  ast_parse :: "string \<Rightarrow> py_error + ast_node"
  tokenize :: "string \<Rightarrow> token list"
  module_has_docstring :: bool

section \<open>The source loader\<close>

text \<open>
  \<^verbatim>\<open>
  with open(filename, 'rb') as fid:
      content = fid.read()
  content = content.replace(b'\r\n', b'\n')
  try:
      node = ast.parse(content)
      return node, content.decode('utf-8')
  except SyntaxError:
      return None, content.decode('utf-8')
  \<close>
\<close>

definition parse_source_file ::
  "'a python_scheme \<Rightarrow> string \<Rightarrow> py_error + (ast_node option \<times> string)" where
  "parse_source_file py filename =
     (case read_file py filename of
        Inl e \<Rightarrow> Inl e
      | Inr raw \<Rightarrow>
          (let content = replace_crlf raw in
           case ast_parse py content of
             Inr node \<Rightarrow>
               (case decode_utf8 content of
                  Inl e \<Rightarrow> Inl e
                | Inr text \<Rightarrow> Inr (Some node, text))
           | Inl (SyntaxError m) \<Rightarrow>
               (case decode_utf8 content of
                  Inl e \<Rightarrow> Inl e
                | Inr text \<Rightarrow> Inr (None, text))
           | Inl e \<Rightarrow> Inl e))"

section \<open>The docstring splitter\<close>

definition SYNTAX_ERROR_DOCSTRING :: string where
  "SYNTAX_ERROR_DOCSTRING =
     LF # ''SyntaxError'' @ LF # ''==========='' @ LF #
     ''Example script with invalid Python syntax'' @ [LF]"

definition not_a_module_message :: "string \<Rightarrow> string" where
  "not_a_module_message cls = ''This function only supports modules. You provided '' @ cls"

definition missing_docstring_message :: "string \<Rightarrow> string" where
  "missing_docstring_message filename =
     ''Could not find docstring in file '' @ DQ # filename @ DQ #
     ''. A docstring is required for the example gallery.''"

text \<open>
  The loop over the tokens: \<^verbatim>\<open>ds_lines\<close> starts at 0 and becomes the end row of the
  first token whose exact type is 3 (\<^verbatim>\<open>STRING\<close>).
\<close>

fun scan_ds_lines :: "token list \<Rightarrow> nat" where
  "scan_ds_lines [] = 0"
| "scan_ds_lines (tk # ts) =
     (if exact_type tk = 3 then fst (tok_end tk) else scan_ds_lines ts)"

text \<open>
  The attribute \<^verbatim>\<open>node.docstring\<close> where it exists: the text of the leading string
  literal of the module, and a false value (here the empty text) when there is none.
\<close>

fun node_docstring :: "stmt list \<Rightarrow> string" where
  "node_docstring (Expr l (Str s) # rest) = s"
| "node_docstring body = []"

text \<open>
  Lines 133 to 169: the docstring, the rest and the line number, the last one unbound
  in the branch that finds no docstring. With the attribute:
  \<^verbatim>\<open>
  docstring = node.docstring
  ts = tokenize.tokenize(BytesIO(content).readline)
  ds_lines = 0
  for tk in ts:
      if tk.exact_type == 3:
          ds_lines, _ = tk.end
          break
  rest = '\n'.join(content.split('\n')[ds_lines:])
  lineno = ds_lines + 1
  \<close>
  Here \<^verbatim>\<open>content\<close> is the decoded text, and \<^verbatim>\<open>BytesIO\<close> of a text raises
  TypeError, which \<^verbatim>\<open>except AttributeError\<close> does not catch: on an interpreter
  with the attribute the lines after it are never reached. After AttributeError (a
  Python 3 text has no \<^verbatim>\<open>decode\<close>, so the literal is taken as it is):
  \<^verbatim>\<open>
  if node.body and isinstance(node.body[0], ast.Expr) and \
     isinstance(node.body[0].value, ast.Str):
      docstring_node = node.body[0]
      docstring = docstring_node.value.s
      lineno = docstring_node.lineno
      rest = content.split('\n', lineno)[-1]
      lineno += 1
  else:
      docstring, rest = '', ''
  \<close>
\<close>

definition BytesIO_of_text :: "string \<Rightarrow> py_error + string" where
  "BytesIO_of_text content =
     Inl (TypeError (''a bytes-like object is required, not '' @ CHR 0x27 # ''str'' @ [CHR 0x27]))"

definition with_docstring_attribute ::
  "'a python_scheme \<Rightarrow> string \<Rightarrow> stmt list \<Rightarrow>
   py_error + (string \<times> string \<times> nat option)" where
  "with_docstring_attribute py content body =
     (let docstring = node_docstring body in
      case BytesIO_of_text content of
        Inl e \<Rightarrow> Inl e
      | Inr stream \<Rightarrow>
          (let ds_lines = scan_ds_lines (tokenize py stream);
               rest = join_nl (drop ds_lines (split_nl content));
               lineno = ds_lines + 1
           in Inr (docstring, rest, Some lineno)))"

fun after_attribute_error ::
  "string \<Rightarrow> stmt list \<Rightarrow> py_error + (string \<times> string \<times> nat option)" where
  "after_attribute_error content (Expr lineno (Str s) # body) =
     (case index_last (split_max lineno content) of
        Inl e \<Rightarrow> Inl e
      | Inr rest \<Rightarrow> Inr (s, rest, Some (lineno + 1)))"
| "after_attribute_error content body = Inr ([], [], None)"

text \<open>
  The whole function. A syntax error gives the fixed docstring, the content and line 1;
  a tree that is no module raises TypeError; an empty docstring raises ValueError with
  the path in its message.
\<close>

definition get_docstring_and_rest ::
  "'a python_scheme \<Rightarrow> string \<Rightarrow> py_error + (string \<times> string \<times> nat)" where
  "get_docstring_and_rest py filename =
     (case parse_source_file py filename of
        Inl e \<Rightarrow> Inl e
      | Inr (None, content) \<Rightarrow> Inr (SYNTAX_ERROR_DOCSTRING, content, 1)
      | Inr (Some (Node cls), content) \<Rightarrow> Inl (TypeError (not_a_module_message cls))
      | Inr (Some (Module body), content) \<Rightarrow>
          (case (if module_has_docstring py
                 then with_docstring_attribute py content body
                 else after_attribute_error content body) of
             Inl e \<Rightarrow> Inl e
           | Inr (docstring, rest, lineno) \<Rightarrow>
               if docstring = [] then Inl (ValueError (missing_docstring_message filename))
               else (case lineno of
                       None \<Rightarrow> Inl (UnboundLocalError ''lineno'')
                     | Some n \<Rightarrow> Inr (docstring, rest, n))))"

section \<open>Display capture\<close>

text \<open>
  \<^verbatim>\<open>sys.displayhook\<close> holds either the capturing object of this module or some
  other callable, known here by a number. The interpreter state that executed code
  works on has the namespace it runs in, the hook, and everything else.
\<close>

datatype hook = Capture | Hook nat

record ('v, 'w) interp =
  namespace :: "string \<rightharpoonup> 'v option"
  sys_displayhook :: hook
  world :: 'w

text \<open>
  A value of Python is \<^typ>\<open>'v option\<close>, \<^term>\<open>None\<close> being Python's
  \<^verbatim>\<open>None\<close>. A run either returns a value or raises, and leaves a state in both
  cases.
\<close>

datatype ('a, 's) outcome = Returns 'a 's | Raises py_error 's

text \<open>
  The object of class \<^verbatim>\<open>_CatchDisplay\<close>: \<^verbatim>\<open>output\<close> is set by the
  constructor, \<^verbatim>\<open>old_hook\<close> only by \<^verbatim>\<open>__enter__\<close>, so it can be missing.
\<close>

record 'v CatchDisplay =
  "output" :: "'v option"
  old_hook :: "hook option"

definition CatchDisplay_init :: "'v CatchDisplay" where
  "CatchDisplay_init = \<lparr>output = None, old_hook = None\<rparr>"

definition CatchDisplay_enter ::
  "'v CatchDisplay \<times> ('v, 'w) interp \<Rightarrow> 'v CatchDisplay \<times> ('v, 'w) interp" where
  "CatchDisplay_enter = (\<lambda>(self, st).
     (self\<lparr>old_hook := Some (sys_displayhook st)\<rparr>, st\<lparr>sys_displayhook := Capture\<rparr>))"

definition CatchDisplay_exit ::
  "'v CatchDisplay \<times> ('v, 'w) interp \<Rightarrow> (bool, 'v CatchDisplay \<times> ('v, 'w) interp) outcome" where
  "CatchDisplay_exit = (\<lambda>(self, st).
     case old_hook self of
       None \<Rightarrow> Raises (AttributeError ''old_hook'') (self, st)
     | Some h \<Rightarrow> Returns False (self, st\<lparr>sys_displayhook := h\<rparr>))"

definition CatchDisplay_call ::
  "'v option \<Rightarrow> 'v CatchDisplay \<times> ('v, 'w) interp \<Rightarrow> 'v CatchDisplay \<times> ('v, 'w) interp" where
  "CatchDisplay_call v = (\<lambda>(self, st). (self\<lparr>output := v\<rparr>, st))"

text \<open>
  The statement \<^verbatim>\<open>with catch_display: body\<close>: enter, run the body, and call
  \<^verbatim>\<open>__exit__\<close> on both ways out; an exception of the body is raised again unless
  \<^verbatim>\<open>__exit__\<close> returns a true value.
\<close>

definition with_CatchDisplay ::
  "('v CatchDisplay \<times> ('v, 'w) interp \<Rightarrow> (unit, 'v CatchDisplay \<times> ('v, 'w) interp) outcome) \<Rightarrow>
   'v CatchDisplay \<times> ('v, 'w) interp \<Rightarrow> (unit, 'v CatchDisplay \<times> ('v, 'w) interp) outcome" where
  "with_CatchDisplay body s =
     (case body (CatchDisplay_enter s) of
        Returns u s2 \<Rightarrow>
          (case CatchDisplay_exit s2 of
             Returns suppress s3 \<Rightarrow> Returns () s3
           | Raises e s3 \<Rightarrow> Raises e s3)
      | Raises e s2 \<Rightarrow>
          (case CatchDisplay_exit s2 of
             Returns suppress s3 \<Rightarrow> if suppress then Returns () s3 else Raises e s3
           | Raises e' s3 \<Rightarrow> Raises e' s3))"

section \<open>Split-execute\<close>

text \<open>
  Running code is a parameter as well: \<^verbatim>\<open>exec\<close> of one statement compiled as a
  module, the evaluation of an expression, and a call of a hook other than the capture.
  The first argument is the file name given to \<^verbatim>\<open>compile\<close>.
\<close>

record ('v, 'w) interpreter = python +
  exec_module :: "string \<Rightarrow> stmt \<Rightarrow> ('v, 'w) interp \<Rightarrow> (unit, ('v, 'w) interp) outcome"
  eval_expr :: "string \<Rightarrow> expr \<Rightarrow> ('v, 'w) interp \<Rightarrow> ('v option, ('v, 'w) interp) outcome"
  call_hook :: "nat \<Rightarrow> 'v option \<Rightarrow> ('v, 'w) interp \<Rightarrow> (unit, ('v, 'w) interp) outcome"

text \<open>
  \<^verbatim>\<open>exec(compile(ast.Interactive([node]), filename, 'single'), namespace)\<close>: an
  expression statement is evaluated and its value is passed to whatever
  \<^verbatim>\<open>sys.displayhook\<close> is at that moment; any other statement is executed.
\<close>

fun exec_single ::
  "('v, 'w, 'a) interpreter_scheme \<Rightarrow> string \<Rightarrow> stmt \<Rightarrow>
   'v CatchDisplay \<times> ('v, 'w) interp \<Rightarrow> (unit, 'v CatchDisplay \<times> ('v, 'w) interp) outcome" where
  "exec_single py filename (Expr l e) (self, st) =
     (case eval_expr py filename e st of
        Raises x st' \<Rightarrow> Raises x (self, st')
      | Returns v st' \<Rightarrow>
          (case sys_displayhook st' of
             Capture \<Rightarrow> Returns () (CatchDisplay_call v (self, st'))
           | Hook n \<Rightarrow>
               (case call_hook py n v st' of
                  Raises x st'' \<Rightarrow> Raises x (self, st'')
                | Returns u st'' \<Rightarrow> Returns () (self, st''))))"
| "exec_single py filename (Statement l s) (self, st) =
     (case exec_module py filename (Statement l s) st of
        Raises x st' \<Rightarrow> Raises x (self, st')
      | Returns u st' \<Rightarrow> Returns () (self, st'))"

text \<open>The two loops, over \<^verbatim>\<open>to_exec\<close> and over \<^verbatim>\<open>to_eval\<close>.\<close>

fun exec_all ::
  "('v, 'w, 'a) interpreter_scheme \<Rightarrow> string \<Rightarrow> stmt list \<Rightarrow>
   ('v, 'w) interp \<Rightarrow> (unit, ('v, 'w) interp) outcome" where
  "exec_all py filename [] st = Returns () st"
| "exec_all py filename (node # nodes) st =
     (case exec_module py filename node st of
        Raises x st' \<Rightarrow> Raises x st'
      | Returns u st' \<Rightarrow> exec_all py filename nodes st')"

fun eval_all ::
  "('v, 'w, 'a) interpreter_scheme \<Rightarrow> string \<Rightarrow> stmt list \<Rightarrow>
   'v CatchDisplay \<times> ('v, 'w) interp \<Rightarrow> (unit, 'v CatchDisplay \<times> ('v, 'w) interp) outcome" where
  "eval_all py filename [] s = Returns () s"
| "eval_all py filename (node # nodes) s =
     (case exec_single py filename node s of
        Raises x s' \<Rightarrow> Raises x s'
      | Returns u s' \<Rightarrow> eval_all py filename nodes s')"

text \<open>
  \<^verbatim>\<open>
  tree = ast.parse(code, filename='<ast>', mode='exec')
  if namespace is None:
      namespace = {}
  catch_display = _CatchDisplay()
  if isinstance(tree.body[-1], ast.Expr):
      to_exec, to_eval = tree.body[:-1], tree.body[-1:]
  else:
      to_exec, to_eval = tree.body, []
  for node in to_exec: ...
  with catch_display:
      for node in to_eval: ...
  return catch_display.output
  \<close>
  The state given to the function is the interpreter's at the call; its field
  \<^const>\<open>namespace\<close> becomes the dictionary the code runs in, the argument or a fresh
  empty one. In mode \<^verbatim>\<open>exec\<close> the parser returns a module.
\<close>

definition exec_then_eval ::
  "('v, 'w, 'a) interpreter_scheme \<Rightarrow> string \<Rightarrow> (string \<rightharpoonup> 'v option) option \<Rightarrow> string \<Rightarrow>
   ('v, 'w) interp \<Rightarrow> ('v option, ('v, 'w) interp) outcome" where
  "exec_then_eval py code namespace_arg filename st =
     (case ast_parse py code of
        Inl e \<Rightarrow> Raises e st
      | Inr (Node cls) \<Rightarrow> Raises (AttributeError ''body'') st
      | Inr (Module body) \<Rightarrow>
          (let st0 = st\<lparr>namespace := (case namespace_arg of None \<Rightarrow> Map.empty | Some ns \<Rightarrow> ns)\<rparr>;
               catch_display = CatchDisplay_init
           in case index_last body of
                Inl e \<Rightarrow> Raises e st0
              | Inr final \<Rightarrow>
                  (let (to_exec, to_eval) =
                         (if is_Expr final then (butlast body, [final]) else (body, []))
                   in case exec_all py filename to_exec st0 of
                        Raises e st1 \<Rightarrow> Raises e st1
                      | Returns u st1 \<Rightarrow>
                          (case with_CatchDisplay (eval_all py filename to_eval) (catch_display, st1) of
                             Raises e (cd, st2) \<Rightarrow> Raises e st2
                           | Returns u (cd, st2) \<Rightarrow> Returns (output cd) st2))))"

section \<open>Notions the properties are stated with\<close>

text \<open>The module starts with a statement that is nothing but a string literal.\<close>

fun leading_string_literal :: "stmt list \<Rightarrow> bool" where
  "leading_string_literal (Expr l (Str s) # rest) = True"
| "leading_string_literal body = False"


text \<open>
  The consumed header of a content: its first \<open>n\<close> lines, each with the line feed that
  ends it (the last line of a file may have none).
\<close>

fun header_lines :: "nat \<Rightarrow> string \<Rightarrow> string" where
  "header_lines 0 s = []"
| "header_lines (Suc n) [] = []"
| "header_lines (Suc n) (c # cs) =
     c # (if c = LF then header_lines n cs else header_lines (Suc n) cs)"

text \<open>
  Two contents that differ only in line endings: \<open>differ_in_line_endings a b\<close> says
  that \<open>a\<close> is \<open>b\<close> with some of the line feeds of \<open>b\<close> written as CR LF. A content
  and the same content with every CR LF replaced by LF are such a pair.
\<close>

fun differ_in_line_endings :: "string \<Rightarrow> string \<Rightarrow> bool" where
  "differ_in_line_endings [] [] = True"
| "differ_in_line_endings (x # xs) (y # ys) =
     ((x = y \<and> differ_in_line_endings xs ys) \<or>
      (x = CR \<and> y = LF \<and>
       (case xs of z # zs \<Rightarrow> z = LF \<and> differ_in_line_endings zs ys | [] \<Rightarrow> False)))"
| "differ_in_line_endings xs ys = False"

text \<open>
  The narrower relation \<open>crlf_variant a b\<close>: as before, but a line feed of \<open>b\<close> that
  follows a carriage return is left as it is, so that the change puts no CR CR LF into
  \<open>a\<close>. The flag says whether the character before was a carriage return.
\<close>

fun crlf_variant_from :: "bool \<Rightarrow> string \<Rightarrow> string \<Rightarrow> bool" where
  "crlf_variant_from p [] [] = True"
| "crlf_variant_from p (x # xs) (y # ys) =
     ((x = y \<and> crlf_variant_from (x = CR) xs ys) \<or>
      (\<not> p \<and> x = CR \<and> y = LF \<and>
       (case xs of z # zs \<Rightarrow> z = LF \<and> crlf_variant_from False zs ys | [] \<Rightarrow> False)))"
| "crlf_variant_from p xs ys = False"

definition crlf_variant :: "string \<Rightarrow> string \<Rightarrow> bool" where
  "crlf_variant a b = crlf_variant_from False a b"

text \<open>The state a run ends in, and a run of statements one after the other.\<close>

fun state_of :: "('a, 's) outcome \<Rightarrow> 's" where
  "state_of (Returns a s) = s"
| "state_of (Raises e s) = s"


section \<open>A sample interpreter\<close>

text \<open>
  What CPython answers on the few files and texts that serve as examples below. The
  file \<^verbatim>\<open>doc.py\<close> holds a docstring and an assignment, \<^verbatim>\<open>crlf.py\<close> the same
  with CR LF line endings, \<^verbatim>\<open>crcrlf.py\<close> the same with CR CR LF at the end of
  each line, \<^verbatim>\<open>bare.py\<close> the docstring alone with no line feed
  after it, \<^verbatim>\<open>code.py\<close> the assignment alone, \<^verbatim>\<open>bad.py\<close> a syntax error,
  \<^verbatim>\<open>latin.py\<close> a single byte 0xE9, \<^verbatim>\<open>cookie.py\<close> a Latin-1 file with its
  coding declaration, \<^verbatim>\<open>nul.py\<close> a null byte.
\<close>

definition doc_literal :: string where
  "doc_literal = DQ # DQ # DQ # ''doc'' @ [DQ, DQ, DQ]"

definition cookie_source :: string where
  "cookie_source = ''# coding: latin-1'' @ LF # ''x = '' @ [CHR 0x27, CHR 0xE9, CHR 0x27, LF]"

definition cookie_statement :: string where
  "cookie_statement = ''x = '' @ [CHR 0x27, CHR 0xE9, CHR 0x27]"

definition swap_source :: string where
  "swap_source =
     ''import sys'' @ LF # ''def swap(): sys.displayhook = repr; return 5'' @ LF #
     ''swap()'' @ [LF]"

definition sample_read :: "string \<Rightarrow> py_error + string" where
  "sample_read filename =
     (if filename = ''doc.py'' then Inr (doc_literal @ LF # ''x = 1'' @ [LF])
      else if filename = ''crlf.py'' then Inr (doc_literal @ CR # LF # ''x = 1'' @ [CR, LF])
      else if filename = ''crcrlf.py''
        then Inr (doc_literal @ CR # CR # LF # ''x = 1'' @ [CR, CR, LF])
      else if filename = ''code.py'' then Inr (''x = 1'' @ [LF])
      else if filename = ''bad.py'' then Inr (''x = = 1'' @ [LF])
      else if filename = ''bare.py'' then Inr doc_literal
      else if filename = ''latin.py'' then Inr [CHR 0xE9]
      else if filename = ''cookie.py'' then Inr cookie_source
      else if filename = ''nul.py'' then Inr [CHR 0x00]
      else Inl (OSError ''No such file or directory''))"

definition sample_parse :: "string \<Rightarrow> py_error + ast_node" where
  "sample_parse source =
     (if source = doc_literal @ LF # ''x = 1'' @ [LF]
        then Inr (Module [Expr 1 (Str ''doc''), Statement 2 ''x = 1''])
      else if source = doc_literal @ CR # LF # ''x = 1'' @ [CR, LF]
        then Inr (Module [Expr 1 (Str ''doc''), Statement 2 ''x = 1''])
      else if source = ''x = 1'' @ [LF] then Inr (Module [Statement 1 ''x = 1''])
      else if source = doc_literal then Inr (Module [Expr 1 (Str ''doc'')])
      else if source = ''x = 1'' @ LF # ''x'' @ [LF]
        then Inr (Module [Statement 1 ''x = 1'', Expr 2 (Expression ''x'')])
      else if source = swap_source
        then Inr (Module [Statement 1 ''import sys'',
                          Statement 2 ''def swap(): sys.displayhook = repr; return 5'',
                          Expr 3 (Expression ''swap()'')])
      else if source = cookie_source then Inr (Module [Statement 2 cookie_statement])
      else if source = [] then Inr (Module [])
      else if source = [CHR 0x00]
        then Inl (ValueError ''source code string cannot contain null bytes'')
      else Inl (SyntaxError ''invalid syntax''))"

definition sample_tokenize :: "string \<Rightarrow> token list" where
  "sample_tokenize source =
     (if take 9 source = doc_literal
      then [\<lparr>exact_type = 59, tok_end = (0, 0)\<rparr>, \<lparr>exact_type = 3, tok_end = (1, 9)\<rparr>]
      else [\<lparr>exact_type = 59, tok_end = (0, 0)\<rparr>])"

definition sample_python :: "bool \<Rightarrow> python" where
  "sample_python attr =
     \<lparr>read_file = sample_read, ast_parse = sample_parse, tokenize = sample_tokenize,
      module_has_docstring = attr\<rparr>"

text \<open>
  Running code in the sample: the assignment binds \<^verbatim>\<open>x\<close>, the import and the
  function definition bind their names, a name evaluates to what it is bound to, and the
  call \<^verbatim>\<open>swap()\<close> rebinds \<^verbatim>\<open>sys.displayhook\<close> and returns 5.
\<close>

datatype pyvalue = IntV int | StrV string | ObjV string

definition sample_eval ::
  "string \<Rightarrow> expr \<Rightarrow> (pyvalue, unit) interp \<Rightarrow> (pyvalue option, (pyvalue, unit) interp) outcome" where
  "sample_eval filename e st =
     (case e of
        Str s \<Rightarrow> Returns (Some (StrV s)) st
      | Expression text \<Rightarrow>
          (if text = ''swap()'' then
             (if namespace st ''swap'' = Some (Some (ObjV ''function swap'')) \<and>
                 namespace st ''sys'' = Some (Some (ObjV ''module sys''))
              then Returns (Some (IntV 5)) (st\<lparr>sys_displayhook := Hook 1\<rparr>)
              else Raises (Exception ''NameError'') st)
           else
             (case namespace st text of
                Some v \<Rightarrow> Returns v st
              | None \<Rightarrow> Raises (Exception ''NameError'') st)))"

definition sample_exec ::
  "string \<Rightarrow> stmt \<Rightarrow> (pyvalue, unit) interp \<Rightarrow> (unit, (pyvalue, unit) interp) outcome" where
  "sample_exec filename node st =
     (case node of
        Statement l s \<Rightarrow>
          (if s = ''x = 1''
             then Returns () (st\<lparr>namespace := (namespace st)(''x'' \<mapsto> Some (IntV 1))\<rparr>)
           else if s = ''import sys''
             then Returns () (st\<lparr>namespace := (namespace st)(''sys'' \<mapsto> Some (ObjV ''module sys''))\<rparr>)
           else if s = ''def swap(): sys.displayhook = repr; return 5''
             then Returns ()
                    (st\<lparr>namespace := (namespace st)(''swap'' \<mapsto> Some (ObjV ''function swap''))\<rparr>)
           else Raises (Exception ''statement not in the sample'') st)
      | Expr l e \<Rightarrow>
          (case sample_eval filename e st of
             Returns v st' \<Rightarrow> Returns () st'
           | Raises x st' \<Rightarrow> Raises x st'))"

definition sample_interpreter :: "(pyvalue, unit) interpreter" where
  "sample_interpreter =
     \<lparr>read_file = sample_read, ast_parse = sample_parse, tokenize = sample_tokenize,
      module_has_docstring = False, exec_module = sample_exec, eval_expr = sample_eval,
      call_hook = (\<lambda>n v st. Returns () st)\<rparr>"

definition sample_state :: "(pyvalue, unit) interp" where
  "sample_state = \<lparr>namespace = Map.empty, sys_displayhook = Hook 0, world = ()\<rparr>"




definition body_raising ::
  "pyvalue CatchDisplay \<times> (pyvalue, unit) interp \<Rightarrow>
   (unit, pyvalue CatchDisplay \<times> (pyvalue, unit) interp) outcome" where
  "body_raising = (\<lambda>(self, st). Raises (Exception ''boom'') (self, st\<lparr>sys_displayhook := Hook 7\<rparr>))"

definition body_reporting ::
  "pyvalue CatchDisplay \<times> (pyvalue, unit) interp \<Rightarrow>
   (unit, pyvalue CatchDisplay \<times> (pyvalue, unit) interp) outcome" where
  "body_reporting = (\<lambda>s. Returns () (CatchDisplay_call (Some (IntV 3)) s))"

section \<open>Facts about the sequence operations\<close>

lemmas sample_defs = sample_python_def sample_read_def sample_parse_def sample_tokenize_def
  doc_literal_def cookie_source_def cookie_statement_def swap_source_def

lemmas run_defs = get_docstring_and_rest_def parse_source_file_def decode_utf8_def
  with_docstring_attribute_def BytesIO_of_text_def Let_def in_range_def cont_byte_def

lemmas sample_run_defs = sample_interpreter_def sample_exec_def sample_eval_def sample_state_def
  sample_parse_def doc_literal_def cookie_source_def swap_source_def

lemma index_last_Cons: "body \<noteq> [] \<Longrightarrow> index_last body = Inr (last body)"
  by (cases body) auto

lemma split_nl_not_Nil: "split_nl s \<noteq> []"
  by (induction s) auto

lemma split_max_not_Nil: "split_max k s \<noteq> []"
  by (induction k s rule: split_max.induct) auto

lemma index_last_split_max: "index_last (split_max k s) = Inr (last (split_max k s))"
  by (simp add: index_last_Cons split_max_not_Nil)

lemma join_split_nl: "join_nl (split_nl s) = s"
proof (induction s)
  case Nil
  then show ?case by simp
next
  case (Cons c cs)
  obtain l ls where sp: "split_nl cs = l # ls"
    using split_nl_not_Nil by (cases "split_nl cs") auto
  show ?case
  proof (cases "c = LF")
    case True
    then show ?thesis using Cons sp by simp
  next
    case False
    then show ?thesis using Cons sp by (cases ls) auto
  qed
qed

lemma length_split_max: "length (split_max k s) = Suc (min k (count_list s LF))"
proof (induction k s rule: split_max.induct)
  case (1 s)
  then show ?case by simp
next
  case (2 k)
  then show ?case by simp
next
  case (3 k c cs)
  then show ?case
    by (cases "split_max (Suc k) cs") (auto simp: split_max_not_Nil)
qed

text \<open>
  The slicing written in the branch with the attribute \<^verbatim>\<open>docstring\<close> loses nothing,
  whatever the row: the first \<open>k\<close> lines and the joined remaining lines are the content.
\<close>

lemma roundtrip_with_attribute:
  "header_lines k s @ join_nl (drop k (split_nl s)) = s"
proof (induction k s rule: header_lines.induct)
  case (1 s)
  then show ?case by (simp add: join_split_nl)
next
  case (2 n)
  then show ?case by simp
next
  case (3 n c cs)
  obtain l ls where sp: "split_nl cs = l # ls"
    using split_nl_not_Nil by (cases "split_nl cs") auto
  show ?case
  proof (cases "c = LF")
    case True
    then show ?thesis using 3 by simp
  next
    case False
    then show ?thesis using 3 sp by simp
  qed
qed

text \<open>
  After AttributeError the split loses nothing as long as the content has at least
  \<open>k\<close> line feeds, that is, as long as line \<open>k\<close> is ended by one.
\<close>

lemma roundtrip_after_attribute_error:
  "k \<le> count_list s LF \<Longrightarrow> header_lines k s @ last (split_max k s) = s"
proof (induction k s rule: header_lines.induct)
  case (1 s)
  then show ?case by simp
next
  case (2 n)
  then show ?case by simp
next
  case (3 n c cs)
  show ?case
  proof (cases "c = LF")
    case True
    then show ?thesis using 3 by (simp add: split_max_not_Nil)
  next
    case False
    then have le: "Suc n \<le> count_list cs LF" using "3.prems" by simp
    have ih: "header_lines (Suc n) cs @ last (split_max (Suc n) cs) = cs"
      using 3 False le by simp
    obtain l ls where sp: "split_max (Suc n) cs = l # ls"
      using split_max_not_Nil by (cases "split_max (Suc n) cs") auto
    have "length (split_max (Suc n) cs) = Suc (Suc n)"
      using le by (simp add: length_split_max)
    then have "ls \<noteq> []" using sp by auto
    then show ?thesis using False ih sp by simp
  qed
qed

lemma replace_crlf_LF: "replace_crlf (LF # s) = LF # replace_crlf s"
  by (cases s) auto

lemma replace_crlf_not_CR: "x \<noteq> CR \<Longrightarrow> replace_crlf (x # s) = x # replace_crlf s"
  by (cases s) auto

lemma crlf_variant_from_Nil: "crlf_variant_from p [] ys \<Longrightarrow> ys = []"
  by (cases ys) auto

lemma crlf_variant_from_after_CR:
  "crlf_variant_from True (d # cs) ys \<Longrightarrow> \<exists>ys'. ys = d # ys'"
  by (cases ys) auto

lemma replace_crlf_variant_from:
  "crlf_variant_from p a b \<Longrightarrow> replace_crlf a = replace_crlf b"
proof (induction p a b rule: crlf_variant_from.induct)
  case (1 p)
  then show ?case by simp
next
  case (2 p x xs y ys)
  from "2.prems" consider
      (same) "x = y" "crlf_variant_from (x = CR) xs ys"
    | (crlf) zs where "\<not> p" "x = CR" "y = LF" "xs = LF # zs" "crlf_variant_from False zs ys"
    by (auto split: list.splits)
  then show ?case
  proof cases
    case same
    then have ih: "replace_crlf xs = replace_crlf ys"
      using "2.IH"(1) by simp
    show ?thesis
    proof (cases "x = CR")
      case False
      then show ?thesis using same ih by (simp add: replace_crlf_not_CR)
    next
      case True
      show ?thesis
      proof (cases xs)
        case Nil
        then have "ys = []" using same crlf_variant_from_Nil by blast
        then show ?thesis using same Nil by simp
      next
        case (Cons d cs)
        then have "crlf_variant_from True (d # cs) ys"
          using same True by simp
        then obtain ys' where ys: "ys = d # ys'"
          using crlf_variant_from_after_CR by blast
        show ?thesis
        proof (cases "d = LF")
          case dl: True
          have "replace_crlf cs = replace_crlf ys'"
            using ih Cons ys dl by (simp add: replace_crlf_LF)
          then show ?thesis using True same Cons ys dl by simp
        next
          case False
          then show ?thesis using True same Cons ys ih by simp
        qed
      qed
    qed
  next
    case crlf
    then have "replace_crlf zs = replace_crlf ys"
      using "2.IH"(2) by simp
    then show ?thesis using crlf by (simp add: replace_crlf_LF)
  qed
qed simp_all

text \<open>The narrower relation is a case of the wider one.\<close>

lemma crlf_variant_from_differ:
  "crlf_variant_from p a b \<Longrightarrow> differ_in_line_endings a b"
  by (induction p a b rule: crlf_variant_from.induct) (auto split: list.splits)

section \<open>Facts about the docstring splitter\<close>

lemma node_docstring_no_literal: "\<not> leading_string_literal body \<Longrightarrow> node_docstring body = []"
  by (induction body rule: leading_string_literal.induct) auto

lemma after_attribute_error_no_literal:
  "\<not> leading_string_literal body \<Longrightarrow> after_attribute_error content body = Inr ([], [], None)"
  by (induction body rule: leading_string_literal.induct) auto

lemma node_docstring_literal:
  "node_docstring body \<noteq> [] \<Longrightarrow> \<exists>l s rest. body = Expr l (Str s) # rest"
  by (induction body rule: node_docstring.induct) auto


lemma get_docstring_and_rest_content:
  assumes "read_file py f1 = Inr a" and "read_file py f2 = Inr b"
    and "replace_crlf a = replace_crlf b"
  shows "(get_docstring_and_rest py f1 = Inr t) = (get_docstring_and_rest py f2 = Inr t)"
  using assms
  by (auto simp: get_docstring_and_rest_def parse_source_file_def Let_def
      split: sum.splits option.splits ast_node.splits prod.splits if_splits py_error.splits)

text \<open>
  On an interpreter whose module nodes have the attribute \<^verbatim>\<open>docstring\<close>, every file
  that loads and parses as a module ends in the TypeError of \<^verbatim>\<open>BytesIO\<close>.
\<close>

lemma attribute_branch_raises_TypeError:
  assumes "module_has_docstring py" and "read_file py f = Inr raw"
    and "valid_utf8 (replace_crlf raw)"
    and "ast_parse py (replace_crlf raw) = Inr (Module body)"
  shows "\<exists>m. get_docstring_and_rest py f = Inl (TypeError m)"
  using assms
  by (simp add: get_docstring_and_rest_def parse_source_file_def decode_utf8_def
      with_docstring_attribute_def BytesIO_of_text_def Let_def)

text \<open>
  After AttributeError the split of a parsed file loses no text when the line of the
  docstring statement is ended by a line feed: the lines before the returned line
  number, followed by the returned rest, are the content.
\<close>

lemma get_docstring_and_rest_roundtrip_after_attribute_error:
  assumes "\<not> module_has_docstring py" and "read_file py f = Inr raw"
    and "ast_parse py (replace_crlf raw) = Inr (Module (Expr l (Str s) # others))"
    and "l \<le> count_list (replace_crlf raw) LF"
    and "get_docstring_and_rest py f = Inr (d, rest, n)"
  shows "header_lines (n - 1) (replace_crlf raw) @ rest = replace_crlf raw"
  using assms
  by (auto simp: get_docstring_and_rest_def parse_source_file_def decode_utf8_def
      Let_def index_last_split_max roundtrip_after_attribute_error split: if_splits)


section \<open>The source loader never raises on a syntax error\<close>

text \<open>
  Claim C9. For a readable file whose normalized content is well-formed UTF-8 and does
  not parse, the source loader returns no tree together with the decoded text and does
  not raise. Every other failure reaches the caller as the exception it is: a file that
  cannot be read, a content that cannot be decoded (whether it parsed or not), and an
  exception of the parser that is no syntax error.
\<close>

theorem parse_source_file_errors:
  "(read_file py f = Inr raw \<longrightarrow> ast_parse py (replace_crlf raw) = Inl (SyntaxError m) \<longrightarrow>
      valid_utf8 (replace_crlf raw) \<longrightarrow>
      parse_source_file py f = Inr (None, replace_crlf raw))
   \<and> (read_file py f = Inl e \<longrightarrow> parse_source_file py f = Inl e)
   \<and> (read_file py f = Inr raw \<longrightarrow> \<not> valid_utf8 (replace_crlf raw) \<longrightarrow>
        (ast_parse py (replace_crlf raw) = Inr node \<or>
         ast_parse py (replace_crlf raw) = Inl (SyntaxError m)) \<longrightarrow>
        parse_source_file py f = Inl UnicodeDecodeError)
   \<and> (read_file py f = Inr raw \<longrightarrow> ast_parse py (replace_crlf raw) = Inl e \<longrightarrow>
        (\<forall>m'. e \<noteq> SyntaxError m') \<longrightarrow> parse_source_file py f = Inl e)"
  by (auto simp: parse_source_file_def decode_utf8_def Let_def split: sum.splits py_error.splits)

text \<open>
  The four cases in the sample: a syntax error, a missing file, a byte that is no UTF-8,
  and a null byte, on which the parser raises ValueError.
\<close>

theorem parse_source_file_errors_witness:
  "read_file (sample_python False) ''bad.py'' = Inr (''x = = 1'' @ [LF])
   \<and> ast_parse (sample_python False) (replace_crlf (''x = = 1'' @ [LF])) =
       Inl (SyntaxError ''invalid syntax'')
   \<and> valid_utf8 (replace_crlf (''x = = 1'' @ [LF]))
   \<and> parse_source_file (sample_python False) ''bad.py'' = Inr (None, ''x = = 1'' @ [LF])
   \<and> read_file (sample_python False) ''gone.py'' = Inl (OSError ''No such file or directory'')
   \<and> parse_source_file (sample_python False) ''gone.py'' =
       Inl (OSError ''No such file or directory'')
   \<and> read_file (sample_python False) ''latin.py'' = Inr [CHR 0xE9]
   \<and> \<not> valid_utf8 (replace_crlf [CHR 0xE9])
   \<and> ast_parse (sample_python False) (replace_crlf [CHR 0xE9]) =
       Inl (SyntaxError ''invalid syntax'')
   \<and> parse_source_file (sample_python False) ''latin.py'' = Inl UnicodeDecodeError
   \<and> read_file (sample_python False) ''nul.py'' = Inr [CHR 0x00]
   \<and> ast_parse (sample_python False) (replace_crlf [CHR 0x00]) =
       Inl (ValueError ''source code string cannot contain null bytes'')
   \<and> parse_source_file (sample_python False) ''nul.py'' =
       Inl (ValueError ''source code string cannot contain null bytes'')"
proof -
  have r1: "read_file (sample_python False) ''bad.py'' = Inr (''x = = 1'' @ [LF])"
    and r2: "read_file (sample_python False) ''gone.py'' =
      Inl (OSError ''No such file or directory'')"
    and r3: "read_file (sample_python False) ''latin.py'' = Inr [CHR 0xE9]"
    and r4: "read_file (sample_python False) ''nul.py'' = Inr [CHR 0x00]"
    by (simp_all add: sample_python_def sample_read_def)
  have p1: "ast_parse (sample_python False) (replace_crlf (''x = = 1'' @ [LF])) =
       Inl (SyntaxError ''invalid syntax'')"
    and p3: "ast_parse (sample_python False) (replace_crlf [CHR 0xE9]) =
       Inl (SyntaxError ''invalid syntax'')"
    and p4: "ast_parse (sample_python False) (replace_crlf [CHR 0x00]) =
       Inl (ValueError ''source code string cannot contain null bytes'')"
    by (simp_all add: sample_defs)
  have v1: "valid_utf8 (replace_crlf (''x = = 1'' @ [LF]))"
    and v3: "\<not> valid_utf8 (replace_crlf [CHR 0xE9])"
    by (simp_all add: in_range_def)
  show ?thesis
    using parse_source_file_errors [of "sample_python False" "''bad.py''" "''x = = 1'' @ [LF]"
        "''invalid syntax''" "OSError ''none''" "Node []"]
      parse_source_file_errors [of "sample_python False" "''gone.py''" "[]" "[]"
        "OSError ''No such file or directory''" "Node []"]
      parse_source_file_errors [of "sample_python False" "''latin.py''" "[CHR 0xE9]"
        "''invalid syntax''" "OSError ''none''" "Node []"]
      parse_source_file_errors [of "sample_python False" "''nul.py''" "[CHR 0x00]" "[]"
        "ValueError ''source code string cannot contain null bytes''" "Node []"]
      r1 r2 r3 r4 p1 p3 p4 v1 v3
    by simp
qed

section \<open>The sentinel of a syntax error\<close>




section \<open>A missing docstring\<close>

text \<open>
  Claim C5, as stated, fails on a file that parses but is no UTF-8: a Latin-1 file with
  its coding declaration is valid Python, has no docstring, and the function raises
  UnicodeDecodeError when the loader decodes it, before any docstring is looked for.
\<close>

theorem latin1_file_raises_decode_error:
  "read_file (sample_python False) ''cookie.py'' = Inr cookie_source
   \<and> ast_parse (sample_python False) (replace_crlf cookie_source) =
       Inr (Module [Statement 2 cookie_statement])
   \<and> \<not> leading_string_literal [Statement 2 cookie_statement]
   \<and> get_docstring_and_rest (sample_python False) ''cookie.py'' = Inl UnicodeDecodeError"
  by (simp add: run_defs sample_defs)

text \<open>
  Claim C5, amended. For a readable file whose normalized content is well-formed UTF-8
  and parses as a module whose first statement is not a bare string literal (a module
  with no statement included), the function raises ValueError, and the message holds
  the path of the file. This is on an interpreter whose module nodes have no attribute
  \<^verbatim>\<open>docstring\<close>, as every released one; with the attribute the function has
  raised TypeError before it looks at the docstring (\<open>attribute_branch_raises_TypeError\<close>).
\<close>

theorem missing_docstring_raises:
  assumes "read_file py f = Inr raw" and "valid_utf8 (replace_crlf raw)"
    and "ast_parse py (replace_crlf raw) = Inr (Module body)"
    and "\<not> leading_string_literal body"
    and "\<not> module_has_docstring py"
  shows "get_docstring_and_rest py f = Inl (ValueError (missing_docstring_message f))
         \<and> (\<exists>a b. missing_docstring_message f = a @ f @ b)"
proof
  show "get_docstring_and_rest py f = Inl (ValueError (missing_docstring_message f))"
    using assms
    by (simp add: get_docstring_and_rest_def parse_source_file_def decode_utf8_def
        after_attribute_error_no_literal)
  show "\<exists>a b. missing_docstring_message f = a @ f @ b"
    unfolding missing_docstring_message_def
    by (rule exI [of _ "''Could not find docstring in file '' @ [DQ]"]) simp
qed

text \<open>The file that holds only the assignment, and the empty module.\<close>

theorem missing_docstring_raises_witness:
  "read_file (sample_python False) ''code.py'' = Inr (''x = 1'' @ [LF])
   \<and> valid_utf8 (replace_crlf (''x = 1'' @ [LF]))
   \<and> ast_parse (sample_python False) (replace_crlf (''x = 1'' @ [LF])) =
       Inr (Module [Statement 1 ''x = 1''])
   \<and> \<not> leading_string_literal [Statement 1 ''x = 1'']
   \<and> \<not> module_has_docstring (sample_python False)
   \<and> get_docstring_and_rest (sample_python False) ''code.py'' =
       Inl (ValueError (missing_docstring_message ''code.py''))
   \<and> \<not> leading_string_literal []"
proof -
  have r: "read_file (sample_python False) ''code.py'' = Inr (''x = 1'' @ [LF])"
    by (simp add: sample_defs)
  have v: "valid_utf8 (replace_crlf (''x = 1'' @ [LF]))"
    by (simp add: in_range_def)
  have p: "ast_parse (sample_python False) (replace_crlf (''x = 1'' @ [LF])) =
       Inr (Module [Statement 1 ''x = 1''])"
    by (simp add: sample_defs)
  have n: "\<not> leading_string_literal [Statement 1 ''x = 1'']"
    by simp
  have a: "\<not> module_has_docstring (sample_python False)"
    by (simp add: sample_python_def)
  show ?thesis
    using missing_docstring_raises [OF r v p n a] r v p n a by simp
qed

section \<open>The example file\<close>

text \<open>
  Claim C7. Take the file that holds three double quotes, \<^verbatim>\<open>doc\<close>, three double
  quotes, a line feed, \<^verbatim>\<open>x = 1\<close> and a line feed. The parser gives a module of
  two statements, the string literal on line 1 and the assignment on line 2. On an
  interpreter whose module nodes have no attribute \<^verbatim>\<open>docstring\<close>, as every
  released one, the function returns the docstring \<^verbatim>\<open>doc\<close>, the rest
  \<^verbatim>\<open>x = 1\<close> with its line feed, and line 2.
\<close>

theorem docstring_example:
  assumes "read_file py f = Inr (doc_literal @ LF # ''x = 1'' @ [LF])"
    and "ast_parse py (doc_literal @ LF # ''x = 1'' @ [LF]) =
           Inr (Module [Expr 1 (Str ''doc''), Statement 2 ''x = 1''])"
    and "\<not> module_has_docstring py"
  shows "get_docstring_and_rest py f = Inr (''doc'', ''x = 1'' @ [LF], 2)"
  using assms
  by (simp add: get_docstring_and_rest_def parse_source_file_def decode_utf8_def
        Let_def doc_literal_def in_range_def cont_byte_def)

theorem docstring_example_witness:
  "read_file (sample_python False) ''doc.py'' = Inr (doc_literal @ LF # ''x = 1'' @ [LF])
   \<and> ast_parse (sample_python False) (doc_literal @ LF # ''x = 1'' @ [LF]) =
       Inr (Module [Expr 1 (Str ''doc''), Statement 2 ''x = 1''])
   \<and> \<not> module_has_docstring (sample_python False)
   \<and> get_docstring_and_rest (sample_python False) ''doc.py'' = Inr (''doc'', ''x = 1'' @ [LF], 2)"
proof -
  have r: "read_file (sample_python False) ''doc.py'' = Inr (doc_literal @ LF # ''x = 1'' @ [LF])"
    by (simp add: sample_python_def sample_read_def)
  have p: "ast_parse (sample_python False) (doc_literal @ LF # ''x = 1'' @ [LF]) =
       Inr (Module [Expr 1 (Str ''doc''), Statement 2 ''x = 1''])"
    by (simp add: sample_python_def sample_parse_def)
  have a: "\<not> module_has_docstring (sample_python False)"
    by (simp add: sample_python_def)
  show ?thesis
    using docstring_example [OF r p a] r p a by simp
qed

section \<open>Line endings\<close>

text \<open>
  Claim C8, as stated, fails for a file that holds CR CR LF. The file
  \<^verbatim>\<open>crlf.py\<close> is \<^verbatim>\<open>crcrlf.py\<close> with every CR LF replaced by LF. The
  single pass of \<^verbatim>\<open>replace\<close> leaves CR LF in the content of the first and LF in
  the content of the second, and the two records differ in their rest.
\<close>

theorem repeated_carriage_return_differs:
  "read_file (sample_python False) ''crcrlf.py'' =
     Inr (doc_literal @ CR # CR # LF # ''x = 1'' @ [CR, CR, LF])
   \<and> read_file (sample_python False) ''crlf.py'' =
     Inr (replace_crlf (doc_literal @ CR # CR # LF # ''x = 1'' @ [CR, CR, LF]))
   \<and> differ_in_line_endings (doc_literal @ CR # CR # LF # ''x = 1'' @ [CR, CR, LF])
        (doc_literal @ CR # LF # ''x = 1'' @ [CR, LF])
   \<and> get_docstring_and_rest (sample_python False) ''crcrlf.py'' =
       Inr (''doc'', ''x = 1'' @ [CR, LF], 2)
   \<and> get_docstring_and_rest (sample_python False) ''crlf.py'' =
       Inr (''doc'', ''x = 1'' @ [LF], 2)"
  by (simp add: run_defs sample_defs)

text \<open>
  Claim C8, amended. Two readable files whose contents differ only in that the first
  has CR LF where the second has a line feed that does not follow a carriage return
  give the same record: whatever triple the function returns for one, it returns for the
  other, and it raises for one exactly when it raises for the other.
\<close>

theorem line_endings_normalized:
  assumes "read_file py f1 = Inr a" and "read_file py f2 = Inr b"
    and "crlf_variant a b"
  shows "(get_docstring_and_rest py f1 = Inr t) = (get_docstring_and_rest py f2 = Inr t)"
proof -
  have "replace_crlf a = replace_crlf b"
    using assms(3) unfolding crlf_variant_def by (rule replace_crlf_variant_from)
  with assms(1,2) show ?thesis
    by (rule get_docstring_and_rest_content)
qed

theorem line_endings_normalized_witness:
  "read_file (sample_python False) ''crlf.py'' = Inr (doc_literal @ CR # LF # ''x = 1'' @ [CR, LF])
   \<and> read_file (sample_python False) ''doc.py'' = Inr (doc_literal @ LF # ''x = 1'' @ [LF])
   \<and> crlf_variant (doc_literal @ CR # LF # ''x = 1'' @ [CR, LF])
        (doc_literal @ LF # ''x = 1'' @ [LF])
   \<and> get_docstring_and_rest (sample_python False) ''doc.py'' = Inr (''doc'', ''x = 1'' @ [LF], 2)
   \<and> get_docstring_and_rest (sample_python False) ''crlf.py'' = Inr (''doc'', ''x = 1'' @ [LF], 2)"
proof -
  have r1: "read_file (sample_python False) ''crlf.py'' =
      Inr (doc_literal @ CR # LF # ''x = 1'' @ [CR, LF])"
    by (simp add: sample_python_def sample_read_def)
  have r2: "read_file (sample_python False) ''doc.py'' = Inr (doc_literal @ LF # ''x = 1'' @ [LF])"
    by (simp add: sample_python_def sample_read_def)
  have v: "crlf_variant (doc_literal @ CR # LF # ''x = 1'' @ [CR, LF])
      (doc_literal @ LF # ''x = 1'' @ [LF])"
    by (simp add: doc_literal_def crlf_variant_def)
  have g: "get_docstring_and_rest (sample_python False) ''doc.py'' =
      Inr (''doc'', ''x = 1'' @ [LF], 2)"
    by (simp add: run_defs sample_defs)
  show ?thesis
    using line_endings_normalized [OF r1 r2 v, of "(''doc'', ''x = 1'' @ [LF], 2)"] r1 r2 v g
    by simp
qed

section \<open>The round trip\<close>

text \<open>
  Claim C3 fails after AttributeError, the branch that every released interpreter
  takes. The file \<^verbatim>\<open>bare.py\<close> holds a docstring and nothing after it, not even a
  line feed. The content has no line feed, so \<^verbatim>\<open>content.split('\n', 1)\<close> has one
  piece, the whole content, and the rest that is returned is the docstring line itself.
  The header through line 1 followed by that rest is the content twice. The comment on
  that line says what the rest is meant to be, the content after the last line of the
  docstring, which is empty here.
\<close>

theorem rest_keeps_docstring_without_final_newline:
  "read_file (sample_python False) ''bare.py'' = Inr doc_literal
   \<and> ast_parse (sample_python False) doc_literal = Inr (Module [Expr 1 (Str ''doc'')])
   \<and> get_docstring_and_rest (sample_python False) ''bare.py'' = Inr (''doc'', doc_literal, 2)
   \<and> header_lines (2 - 1) doc_literal @ doc_literal \<noteq> doc_literal"
  by (simp add: run_defs sample_defs)


section \<open>Facts about running statements\<close>


text \<open>
  The body that \<^verbatim>\<open>exec_then_eval\<close> itself puts under the capture never touches
  the saved hook.
\<close>

lemma exec_single_old_hook:
  "old_hook (fst (state_of (exec_single py filename node (self, st)))) = old_hook self"
  by (cases node)
     (auto simp: CatchDisplay_call_def split: outcome.splits hook.splits)

lemma eval_all_old_hook:
  "old_hook (fst (state_of (eval_all py filename nodes s))) = old_hook (fst s)"
proof (induction nodes arbitrary: s)
  case Nil
  then show ?case by simp
next
  case (Cons node nodes)
  obtain self st where s: "s = (self, st)" by (cases s)
  show ?case
  proof (cases "exec_single py filename node (self, st)")
    case (Returns u s')
    then have "old_hook (fst s') = old_hook self"
      using exec_single_old_hook [of py filename node self st] by simp
    then show ?thesis using Returns s Cons.IH [of s'] by simp
  next
    case (Raises x s')
    then have "old_hook (fst s') = old_hook self"
      using exec_single_old_hook [of py filename node self st] by simp
    then show ?thesis using Raises s by simp
  qed
qed

section \<open>Display capture restores the hook\<close>

text \<open>
  Claim C6, as stated, fails for a use whose body changes the hook that the object has
  saved, and entering the same object again is such a body: in
  \<^verbatim>\<open>with cd: (with cd: pass)\<close> the inner \<^verbatim>\<open>__enter__\<close> saves the capture
  itself over the hook that the outer one had saved, and after both exits
  \<^verbatim>\<open>sys.displayhook\<close> is the capture, not the hook from before.
\<close>

theorem nested_use_keeps_capture:
  "with_CatchDisplay (with_CatchDisplay (\<lambda>s. Returns () s)) (CatchDisplay_init, sample_state) =
     Returns () (\<lparr>output = None, old_hook = Some Capture\<rparr>,
                 sample_state\<lparr>sys_displayhook := Capture\<rparr>)
   \<and> sys_displayhook sample_state = Hook 0"
  by (simp add: with_CatchDisplay_def CatchDisplay_enter_def CatchDisplay_exit_def
      CatchDisplay_init_def sample_state_def)

text \<open>
  Claim C6, amended. For every use of the capture whose body leaves the saved hook of
  the object as \<^verbatim>\<open>__enter__\<close> has set it, the hook from before is back in
  \<^verbatim>\<open>sys.displayhook\<close> after the statement, whatever the body did to
  \<^verbatim>\<open>sys.displayhook\<close> itself: when the body returns, the statement returns, and when
  the body raises, the statement raises the same exception. The body that
  \<^verbatim>\<open>exec_then_eval\<close> runs under the capture is of this kind
  (\<open>eval_all_old_hook\<close>).
\<close>

theorem CatchDisplay_restores_hook:
  assumes "old_hook (fst (state_of (body (CatchDisplay_enter (self, st))))) =
           old_hook (fst (CatchDisplay_enter (self, st)))"
  shows "(\<forall>u s'. body (CatchDisplay_enter (self, st)) = Returns u s' \<longrightarrow>
            with_CatchDisplay body (self, st) =
              Returns () (fst s', (snd s')\<lparr>sys_displayhook := sys_displayhook st\<rparr>))
       \<and> (\<forall>e s'. body (CatchDisplay_enter (self, st)) = Raises e s' \<longrightarrow>
            with_CatchDisplay body (self, st) =
              Raises e (fst s', (snd s')\<lparr>sys_displayhook := sys_displayhook st\<rparr>))"
  using assms
  by (auto simp: with_CatchDisplay_def CatchDisplay_enter_def CatchDisplay_exit_def
      split: prod.splits)

text \<open>
  A body that rebinds \<^verbatim>\<open>sys.displayhook\<close> and raises, and a body that reports a
  value and returns.
\<close>

theorem CatchDisplay_restores_hook_witness:
  "old_hook (fst (state_of (body_raising (CatchDisplay_enter (CatchDisplay_init, sample_state))))) =
     old_hook (fst (CatchDisplay_enter (CatchDisplay_init, sample_state)))
   \<and> with_CatchDisplay body_raising (CatchDisplay_init, sample_state) =
       Raises (Exception ''boom'') (\<lparr>output = None, old_hook = Some (Hook 0)\<rparr>, sample_state)
   \<and> old_hook (fst (state_of (body_reporting (CatchDisplay_enter (CatchDisplay_init, sample_state))))) =
     old_hook (fst (CatchDisplay_enter (CatchDisplay_init, sample_state)))
   \<and> with_CatchDisplay body_reporting (CatchDisplay_init, sample_state) =
       Returns () (\<lparr>output = Some (IntV 3), old_hook = Some (Hook 0)\<rparr>, sample_state)"
proof -
  have f1: "old_hook (fst (state_of (body_raising (CatchDisplay_enter (CatchDisplay_init, sample_state))))) =
     old_hook (fst (CatchDisplay_enter (CatchDisplay_init, sample_state)))"
    by (simp add: body_raising_def CatchDisplay_enter_def)
  have f2: "old_hook (fst (state_of (body_reporting (CatchDisplay_enter (CatchDisplay_init, sample_state))))) =
     old_hook (fst (CatchDisplay_enter (CatchDisplay_init, sample_state)))"
    by (simp add: body_reporting_def CatchDisplay_enter_def CatchDisplay_call_def)
  have b1: "body_raising (CatchDisplay_enter (CatchDisplay_init, sample_state)) =
      Raises (Exception ''boom'')
        (\<lparr>output = None, old_hook = Some (Hook 0)\<rparr>, sample_state\<lparr>sys_displayhook := Hook 7\<rparr>)"
    by (simp add: body_raising_def CatchDisplay_enter_def CatchDisplay_init_def sample_state_def)
  have b2: "body_reporting (CatchDisplay_enter (CatchDisplay_init, sample_state)) =
      Returns ()
        (\<lparr>output = Some (IntV 3), old_hook = Some (Hook 0)\<rparr>,
         sample_state\<lparr>sys_displayhook := Capture\<rparr>)"
    by (simp add: body_reporting_def CatchDisplay_enter_def CatchDisplay_init_def
        CatchDisplay_call_def sample_state_def)
  show ?thesis
    using CatchDisplay_restores_hook [of body_raising CatchDisplay_init sample_state]
      CatchDisplay_restores_hook [of body_reporting CatchDisplay_init sample_state] f1 f2 b1 b2
    by (simp add: sample_state_def)
qed

section \<open>Split-execute\<close>

text \<open>
  Claim C10. When the source text parses to a module with no statement (the empty
  text, or comments only), \<^verbatim>\<open>tree.body[-1]\<close> raises IndexError: the function
  does not return, and nothing has been executed.
\<close>

theorem exec_then_eval_no_statement:
  assumes "ast_parse py code = Inr (Module [])"
  shows "exec_then_eval py code ns filename st =
           Raises IndexError (st\<lparr>namespace := (case ns of None \<Rightarrow> Map.empty | Some d \<Rightarrow> d)\<rparr>)"
  using assms by (simp add: exec_then_eval_def)

theorem exec_then_eval_no_statement_witness:
  "ast_parse sample_interpreter [] = Inr (Module [])
   \<and> exec_then_eval sample_interpreter [] None ''<string>'' sample_state =
       Raises IndexError sample_state"
proof -
  have p: "ast_parse sample_interpreter [] = Inr (Module [])"
    by (simp add: sample_run_defs)
  show ?thesis
    using exec_then_eval_no_statement [OF p, of None "''<string>''" sample_state] p
    by (simp add: sample_state_def)
qed







end
